theory Spec2Isabelle
  imports Complex_Main "HOL-Library.Word"
begin

section \<open>Values of the Go program\<close>

text \<open>
  Go strings are byte sequences, as \<^typ>\<open>string\<close> is. A Go \<open>error\<close> value is either
  \<open>nil\<close> (\<open>None\<close>) or one of the error values the package and its callers build:
  \<open>errors.New(msg)\<close>, \<open>fmt.Errorf("prefix: %w", cause)\<close>, or a gRPC status error
  carrying a \<open>codes.Code\<close> (a \<open>uint32\<close>).
\<close>

datatype go_error =
    ErrorsNew string
  | Errorf_w string go_error
  | StatusError "32 word" string

text \<open>A \<open>*grpc.ClientConn\<close> is a handle; two handles are the same channel iff equal.\<close>

type_synonym conn = nat

datatype attribute_value = StringValue string | IntValue int

type_synonym attribute = "string \<times> attribute_value"

definition attribute_String :: "string \<Rightarrow> string \<Rightarrow> attribute" where
  "attribute_String k v = (k, StringValue v)"

definition attribute_Int :: "string \<Rightarrow> int \<Rightarrow> attribute" where
  "attribute_Int k v = (k, IntValue v)"

type_synonym resource = "attribute list"

datatype exporter = OtlpTraceExporter conn | OtlpMetricExporter conn

datatype sampler = AlwaysSample

datatype span_processor = BatchSpanProcessor exporter

datatype reader = PeriodicReader exporter

datatype propagator = Baggage | TraceContext

record tracer_provider =
  tpSampler :: sampler
  tpResource :: resource
  tpSpanProcessor :: span_processor

record meter_provider =
  mpReader :: reader
  mpResource :: resource

datatype tracer = NoopTracer string | SdkTracer tracer_provider string

type_synonym SpanStartOption = string

datatype span = NoopSpan | SdkSpan tracer_provider string string "SpanStartOption list"

datatype "context" = Background | ContextWithSpan "context" span

text \<open>The two instruments of \<open>type Metrics struct\<close>; an unset interface field is \<open>None\<close>.\<close>

record Int64Counter =
  counterName :: string
  counterDescription :: string

record Float64Histogram =
  histogramName :: string
  histogramDescription :: string
  histogramBoundaries :: "real list"

record Metrics =
  RequestCounter :: "Int64Counter option"
  RequestHistogram :: "Float64Histogram option"

datatype created_instrument =
    CreatedCounter Int64Counter
  | CreatedHistogram Float64Histogram

datatype measurement =
    CounterAdd Int64Counter int "attribute list"
  | HistogramRecord Float64Histogram real "attribute list"

datatype log_entry = Printf string go_error | Println string

text \<open>The closures the two setup functions return.\<close>

datatype cleanup =
    NoopCleanup
  | TracerProviderShutdown tracer_provider "context"
  | MeterProviderShutdown meter_provider "context"

section \<open>The process and its surroundings\<close>

text \<open>
  The package-level variables \<open>metrics\<close>, \<open>tracer\<close> and \<open>grpcConnection\<close>, the
  process-wide registrations of the OpenTelemetry API, and a record of the observable
  effects: every endpoint handed to \<open>grpc.NewClient\<close>, every channel it returned, every
  instrument built, every measurement recorded, every line logged or printed.
\<close>

record state =
  metrics :: Metrics
  tracer :: "tracer option"
  grpcConnection :: "conn option"
  otelTracerProvider :: "tracer_provider option"
  otelTextMapPropagator :: "propagator list"
  otelMeterProvider :: "meter_provider option"
  dialled :: "string list"
  opened :: "conn list"
  instrumentsCreated :: "created_instrument list"
  recorded :: "measurement list"
  logged :: "log_entry list"

definition initial_state :: state where
  "initial_state =
     \<lparr>metrics = \<lparr>RequestCounter = None, RequestHistogram = None\<rparr>,
      tracer = None, grpcConnection = None,
      otelTracerProvider = None, otelTextMapPropagator = [], otelMeterProvider = None,
      dialled = [], opened = [], instrumentsCreated = [], recorded = [], logged = []\<rparr>"

text \<open>
  What the code reads from outside and what the libraries it calls answer: the
  environment, the Unicode branch of \<open>strings.ToLower\<close> (taken only for a string with a
  byte \<open>\<ge> 0x80\<close>), and the outcome of each fallible library constructor (\<open>None\<close>: no
  error).
\<close>

record world =
  environ :: "string \<rightharpoonup> string"
  unicodeToLower :: "string \<Rightarrow> string"
  grpc_NewClient :: "string \<Rightarrow> go_error + conn"
  otlptracegrpc_New :: "conn \<Rightarrow> go_error option"
  otlpmetricgrpc_New :: "conn \<Rightarrow> go_error option"
  resource_New :: "attribute list \<Rightarrow> go_error + resource"
  meter_Int64Counter :: "string \<Rightarrow> go_error option"
  meter_Float64Histogram :: "string \<Rightarrow> go_error option"
  provider_Shutdown :: "go_error option"

definition os_LookupEnv :: "world \<Rightarrow> string \<Rightarrow> string \<times> bool" where
  "os_LookupEnv w k = (case environ w k of None \<Rightarrow> ([], False) | Some v \<Rightarrow> (v, True))"

definition os_Getenv :: "world \<Rightarrow> string \<Rightarrow> string" where
  "os_Getenv w k = fst (os_LookupEnv w k)"

definition ascii_lower :: "char \<Rightarrow> char" where
  "ascii_lower c =
     (if 65 \<le> (of_char c :: nat) \<and> (of_char c :: nat) \<le> 90
      then char_of ((of_char c :: nat) + 32) else c)"

definition strings_ToLower :: "world \<Rightarrow> string \<Rightarrow> string" where
  "strings_ToLower w s =
     (if list_all (\<lambda>c. (of_char c :: nat) < 128) s then map ascii_lower s
      else unicodeToLower w s)"

definition LF :: char where
  "LF = char_of (10 :: nat)"

section \<open>otelx.go\<close>

definition initCollector :: "world \<Rightarrow> state \<Rightarrow> (go_error + conn) \<times> state" where
  "initCollector w s =
     (case grpcConnection s of
        Some c \<Rightarrow> (Inr c, s)
      | None \<Rightarrow>
          if strings_ToLower w (os_Getenv w ''OTEL_ENABLE'') \<noteq> ''true''
          then (Inl (ErrorsNew ''tracing disabled via OTEL_ENABLE=false''), s)
          else
            let otlpEndpoint = os_Getenv w ''OTEL_COLLECTOR_ENDPOINT'' in
            if otlpEndpoint = []
            then (Inl (ErrorsNew ''OTEL_COLLECTOR_ENDPOINT not set''), s)
            else
              let s1 = s\<lparr>dialled := dialled s @ [otlpEndpoint]\<rparr> in
              case grpc_NewClient w otlpEndpoint of
                Inl err \<Rightarrow>
                  (Inl (Errorf_w ''failed to create gRPC connection to collector: '' err), s1)
              | Inr c \<Rightarrow>
                  (Inr c,
                   s1\<lparr>opened := opened s1 @ [c],
                      logged := logged s1 @ [Println ''grpc connection success''],
                      grpcConnection := Some c\<rparr>))"

definition newResource :: "world \<Rightarrow> string \<Rightarrow> go_error + resource" where
  "newResource w service =
     resource_New w
       [attribute_String ''service.name'' service,
        attribute_String ''service.version'' (os_Getenv w ''SERVICE_VERSION''),
        attribute_String ''deployment.environment'' (os_Getenv w ''ENV'')]"

definition NewTraceProvider ::
  "world \<Rightarrow> context \<Rightarrow> string \<Rightarrow> state \<Rightarrow> (tracer_provider option \<times> cleanup) \<times> state" where
  "NewTraceProvider w ctx service s =
     (let clean = NoopCleanup in
      case initCollector w s of
        (Inl err, s1) \<Rightarrow>
          ((None, clean),
           s1\<lparr>logged := logged s1 @ [Printf (''failed to grpc connection: %v'' @ [LF]) err],
              tracer := Some (NoopTracer ''noop'')\<rparr>)
      | (Inr c, s1) \<Rightarrow>
          (case otlptracegrpc_New w c of
             Some err \<Rightarrow>
               ((None, clean),
                s1\<lparr>logged := logged s1 @ [Printf (''failed to create exporter: %v'' @ [LF]) err]\<rparr>)
           | None \<Rightarrow>
               let traceExporter = OtlpTraceExporter c in
               (case newResource w service of
                  Inl err \<Rightarrow>
                    ((None, clean),
                     s1\<lparr>logged := logged s1 @
                          [Printf (''failed to create resource: %v'' @ [LF]) err]\<rparr>)
                | Inr res \<Rightarrow>
                    let bsm = BatchSpanProcessor traceExporter;
                        tp = \<lparr>tpSampler = AlwaysSample, tpResource = res,
                              tpSpanProcessor = bsm\<rparr>
                    in ((Some tp, TracerProviderShutdown tp ctx),
                        s1\<lparr>otelTracerProvider := Some tp,
                           otelTextMapPropagator := [Baggage, TraceContext],
                           tracer := Some (SdkTracer tp service)\<rparr>))))"

definition requestBuckets :: "real list" where
  "requestBuckets = [0.1, 0.2, 0.3, 0.4, 0.5, 0.6, 0.7, 0.8, 0.9, 1.0, 2.0, 5.0]"

definition NewMeterProvider :: "world \<Rightarrow> context \<Rightarrow> string \<Rightarrow> state \<Rightarrow> cleanup \<times> state" where
  "NewMeterProvider w ctx service s =
     (let emptyCleanup = NoopCleanup in
      case initCollector w s of
        (Inl err, s1) \<Rightarrow>
          (emptyCleanup,
           s1\<lparr>logged := logged s1 @ [Printf (''failed to grpc connection: %v'' @ [LF]) err]\<rparr>)
      | (Inr c, s1) \<Rightarrow>
          (case otlpmetricgrpc_New w c of
             Some err \<Rightarrow>
               (emptyCleanup,
                s1\<lparr>logged := logged s1 @
                     [Printf (''failed to grpc connection: %v'' @ [LF]) err]\<rparr>)
           | None \<Rightarrow>
               let metricExporter = OtlpMetricExporter c in
               (case newResource w service of
                  Inl err \<Rightarrow>
                    (emptyCleanup,
                     s1\<lparr>logged := logged s1 @
                          [Printf (''failed to create resource: %v'' @ [LF]) err]\<rparr>)
                | Inr res \<Rightarrow>
                    let mp = \<lparr>mpReader = PeriodicReader metricExporter, mpResource = res\<rparr>;
                        s2 = s1\<lparr>otelMeterProvider := Some mp\<rparr>
                    in
                    (case meter_Int64Counter w ''http_requests_total'' of
                       Some err \<Rightarrow>
                         (emptyCleanup,
                          s2\<lparr>logged := logged s2 @
                               [Printf (''failed to create counter: %s'' @ [LF]) err]\<rparr>)
                     | None \<Rightarrow>
                         let counter = \<lparr>counterName = ''http_requests_total'',
                                        counterDescription = ''Total number of HTTP requests''\<rparr>;
                             s3 = s2\<lparr>instrumentsCreated :=
                                       instrumentsCreated s2 @ [CreatedCounter counter]\<rparr>
                         in
                         (case meter_Float64Histogram w ''http_request_duration_seconds'' of
                            Some err \<Rightarrow>
                              (emptyCleanup,
                               s3\<lparr>logged := logged s3 @
                                    [Printf (''failed to create histogram: %s'' @ [LF]) err]\<rparr>)
                          | None \<Rightarrow>
                              let histogram =
                                    \<lparr>histogramName = ''http_request_duration_seconds'',
                                     histogramDescription = ''HTTP request duration in seconds'',
                                     histogramBoundaries = requestBuckets\<rparr>;
                                  s4 = s3\<lparr>instrumentsCreated :=
                                            instrumentsCreated s3 @ [CreatedHistogram histogram]\<rparr>
                              in
                              (MeterProviderShutdown mp ctx,
                               s4\<lparr>metrics := \<lparr>RequestCounter = Some counter,
                                               RequestHistogram = Some histogram\<rparr>\<rparr>))))))"

text \<open>Calling a returned closure: \<open>func() {}\<close> does nothing; the others log a shutdown error.\<close>

definition call_cleanup :: "world \<Rightarrow> cleanup \<Rightarrow> state \<Rightarrow> state" where
  "call_cleanup w f s =
     (case f of
        NoopCleanup \<Rightarrow> s
      | TracerProviderShutdown tp ctx \<Rightarrow>
          (case provider_Shutdown w of
             None \<Rightarrow> s
           | Some err \<Rightarrow>
               s\<lparr>logged := logged s @ [Printf ''error shutting down tracer provider: %v'' err]\<rparr>)
      | MeterProviderShutdown mp ctx \<Rightarrow>
          (case provider_Shutdown w of
             None \<Rightarrow> s
           | Some err \<Rightarrow>
               s\<lparr>logged := logged s @ [Printf ''error shutting down meter provider: %v'' err]\<rparr>))"

text \<open>
  \<open>Tracer.Start\<close> of the two tracer implementations: the no-op tracer of
  \<open>go.opentelemetry.io/otel/trace/noop\<close> hands out a span that records nothing, the SDK
  tracer a span of its provider.
\<close>

definition tracer_Start ::
  "tracer \<Rightarrow> context \<Rightarrow> string \<Rightarrow> SpanStartOption list \<Rightarrow> context \<times> span" where
  "tracer_Start t ctx name opts =
     (case t of
        NoopTracer n \<Rightarrow> (ContextWithSpan ctx NoopSpan, NoopSpan)
      | SdkTracer tp n \<Rightarrow>
          (ContextWithSpan ctx (SdkSpan tp n name opts), SdkSpan tp n name opts))"

text \<open>
  \<open>span.End()\<close>: a no-op span does nothing; an SDK span is handed to its provider's
  span processor, whose exporter sends it over the exporter's channel.
\<close>

fun exported_over :: "span \<Rightarrow> conn list" where
  "exported_over NoopSpan = []"
| "exported_over (SdkSpan tp n name opts) =
     (case tpSpanProcessor tp of
        BatchSpanProcessor (OtlpTraceExporter c) \<Rightarrow> [c]
      | BatchSpanProcessor (OtlpMetricExporter c) \<Rightarrow> [c])"

function show_nat :: "nat \<Rightarrow> string" where
  "show_nat n =
     (if n < 10 then [char_of (48 + n)]
      else show_nat (n div 10) @ [char_of (48 + n mod 10)])"
  by pat_completeness auto
termination
  by (relation "measure id") auto

definition show_int :: "int \<Rightarrow> string" where
  "show_int i = (if i < 0 then CHR ''-'' # show_nat (nat (- i)) else show_nat (nat i))"

text \<open>
  \<open>StartSpan\<close>; \<open>caller\<close> is what \<open>runtime.Caller(1)\<close> and \<open>runtime.FuncForPC\<close> give:
  the calling function's name and the line.
\<close>

definition StartSpan ::
  "string \<times> int \<Rightarrow> state \<Rightarrow> context \<Rightarrow> SpanStartOption list \<Rightarrow> context \<times> span" where
  "StartSpan caller s ctx opts =
     (if tracer s = None \<or> grpcConnection s = None
      then
        let noopTracer = NoopTracer ''noop'' in
        tracer_Start noopTracer ctx ''noop'' opts
      else
        let fn_Name = fst caller; line = snd caller in
        tracer_Start (the (tracer s)) ctx (fn_Name @ '':'' @ show_int line) opts)"

definition IsEnabled :: "world \<Rightarrow> bool" where
  "IsEnabled w =
     (let ok = snd (os_LookupEnv w ''OTEL_COLLECTOR_ENDPOINT'') in
      os_Getenv w ''OTEL_ENABLE'' = ''true'' \<and> ok)"

section \<open>Recording on the shared instruments\<close>

text \<open>
  \<open>metrics.RequestCounter\<close> and \<open>metrics.RequestHistogram\<close> are interface values. A
  method call on a nil interface value panics (nil pointer dereference) before anything
  is recorded; the panic names the call it happened at.
\<close>

datatype call_site = RequestCounter_Add | RequestHistogram_Record

datatype panic = NilPointerDereference call_site

definition Int64Counter_Add ::
  "Int64Counter option \<Rightarrow> int \<Rightarrow> attribute list \<Rightarrow> state \<Rightarrow> panic + state" where
  "Int64Counter_Add inst incr attrs s =
     (case inst of
        None \<Rightarrow> Inl (NilPointerDereference RequestCounter_Add)
      | Some c \<Rightarrow> Inr (s\<lparr>recorded := recorded s @ [CounterAdd c incr attrs]\<rparr>))"

definition Float64Histogram_Record ::
  "Float64Histogram option \<Rightarrow> real \<Rightarrow> attribute list \<Rightarrow> state \<Rightarrow> panic + state" where
  "Float64Histogram_Record inst v attrs s =
     (case inst of
        None \<Rightarrow> Inl (NilPointerDereference RequestHistogram_Record)
      | Some h \<Rightarrow> Inr (s\<lparr>recorded := recorded s @ [HistogramRecord h v attrs]\<rparr>))"

section \<open>middleware.go\<close>

text \<open>
  The embedded \<open>http.ResponseWriter\<close> is the list of calls it has received. A wrapped
  handler is what it does to the writer it is given: a sequence of \<open>WriteHeader\<close> and
  \<open>Write\<close> calls, chosen from the request.
\<close>

datatype rw_call = WriteHeader int | Write string

type_synonym ResponseWriter = "rw_call list"

record responseWriter =
  embedded :: ResponseWriter
  statusCode :: int

record request =
  reqMethod :: string
  reqURLPath :: string
  reqContext :: "context"

type_synonym Handler = "request \<Rightarrow> rw_call list"

definition http_StatusOK :: int where
  "http_StatusOK = 200"

definition NewResponseWriter :: "ResponseWriter \<Rightarrow> responseWriter" where
  "NewResponseWriter w = \<lparr>embedded = w, statusCode = http_StatusOK\<rparr>"

definition responseWriter_WriteHeader :: "responseWriter \<Rightarrow> int \<Rightarrow> responseWriter" where
  "responseWriter_WriteHeader rw code =
     (let rw1 = rw\<lparr>statusCode := code\<rparr>
      in rw1\<lparr>embedded := embedded rw1 @ [WriteHeader code]\<rparr>)"

text \<open>\<open>Write\<close> is not overridden: the call goes to the embedded writer's method.\<close>

definition responseWriter_Write :: "responseWriter \<Rightarrow> string \<Rightarrow> responseWriter" where
  "responseWriter_Write rw b = rw\<lparr>embedded := embedded rw @ [Write b]\<rparr>"

definition Status :: "responseWriter \<Rightarrow> int" where
  "Status rw = statusCode rw"

fun rw_apply :: "responseWriter \<Rightarrow> rw_call \<Rightarrow> responseWriter" where
  "rw_apply rw (WriteHeader code) = responseWriter_WriteHeader rw code"
| "rw_apply rw (Write b) = responseWriter_Write rw b"

definition ServeHTTP :: "Handler \<Rightarrow> responseWriter \<Rightarrow> request \<Rightarrow> responseWriter" where
  "ServeHTTP h rw r = foldl rw_apply rw (h r)"

text \<open>
  One request through the handler \<open>MetricsMiddleware next\<close> returns; \<open>elapsed\<close> is the
  value of \<open>time.Since(start).Seconds()\<close>.
\<close>

definition MetricsMiddleware ::
  "Handler \<Rightarrow> real \<Rightarrow> state \<Rightarrow> ResponseWriter \<Rightarrow> request \<Rightarrow> panic + (state \<times> ResponseWriter)" where
  "MetricsMiddleware next elapsed s w r =
     (let ctx = reqContext r;
          rw = NewResponseWriter w;
          rw' = ServeHTTP next rw r;
          duration = elapsed
      in
      case Int64Counter_Add (RequestCounter (metrics s)) 1
             [attribute_String ''method'' (reqMethod r),
              attribute_String ''path'' (reqURLPath r),
              attribute_Int ''status_code'' (Status rw')] s of
        Inl p \<Rightarrow> Inl p
      | Inr s1 \<Rightarrow>
          (case Float64Histogram_Record (RequestHistogram (metrics s1)) duration
                  [attribute_String ''method'' (reqMethod r),
                   attribute_String ''path'' (reqURLPath r),
                   attribute_Int ''status_code'' (Status rw')] s1 of
             Inl p \<Rightarrow> Inl p
           | Inr s2 \<Rightarrow> Inr (s2, embedded rw')))"

section \<open>The gRPC interceptors\<close>

text \<open>
  \<open>status.Code\<close> of \<open>google.golang.org/grpc/status\<close>: \<open>codes.OK\<close> (0) for a nil error,
  the code of a status error (also of one wrapped with \<open>%w\<close>), \<open>codes.Unknown\<close> (2) for
  any other error.
\<close>

fun error_Code :: "go_error \<Rightarrow> 32 word" where
  "error_Code (StatusError c m) = c"
| "error_Code (Errorf_w p e) = error_Code e"
| "error_Code (ErrorsNew m) = 2"

fun status_Code :: "go_error option \<Rightarrow> 32 word" where
  "status_Code None = 0"
| "status_Code (Some e) = error_Code e"

record UnaryServerInfo =
  unaryFullMethod :: string

record StreamServerInfo =
  streamFullMethod :: string

record ServerStream =
  ssContext :: "context"

definition UnaryServerMetricsInterceptor ::
  "real \<Rightarrow> state \<Rightarrow> context \<Rightarrow> 'req \<Rightarrow> UnaryServerInfo \<Rightarrow>
   (context \<Rightarrow> 'req \<Rightarrow> 'resp \<times> go_error option) \<Rightarrow>
   panic + (state \<times> 'resp \<times> go_error option)" where
  "UnaryServerMetricsInterceptor elapsed s ctx req info handler =
     (case handler ctx req of
        (resp, err) \<Rightarrow>
          let duration = elapsed;
              code = status_Code err
          in
          (case Int64Counter_Add (RequestCounter (metrics s)) 1
                  [attribute_String ''method'' (unaryFullMethod info),
                   attribute_Int ''status_code'' (uint code)] s of
             Inl p \<Rightarrow> Inl p
           | Inr s1 \<Rightarrow>
               (case Float64Histogram_Record (RequestHistogram (metrics s1)) duration
                       [attribute_String ''method'' (unaryFullMethod info),
                        attribute_Int ''status_code'' (uint code)] s1 of
                  Inl p \<Rightarrow> Inl p
                | Inr s2 \<Rightarrow> Inr (s2, resp, err))))"

definition StreamServerMetricsInterceptor ::
  "real \<Rightarrow> state \<Rightarrow> 'srv \<Rightarrow> ServerStream \<Rightarrow> StreamServerInfo \<Rightarrow>
   ('srv \<Rightarrow> ServerStream \<Rightarrow> go_error option) \<Rightarrow>
   panic + (state \<times> go_error option)" where
  "StreamServerMetricsInterceptor elapsed s srv ss info handler =
     (let err = handler srv ss;
          duration = elapsed;
          code = status_Code err
      in
      case Int64Counter_Add (RequestCounter (metrics s)) 1
             [attribute_String ''method'' (streamFullMethod info),
              attribute_Int ''status_code'' (uint code)] s of
        Inl p \<Rightarrow> Inl p
      | Inr s1 \<Rightarrow>
          (case Float64Histogram_Record (RequestHistogram (metrics s1)) duration
                  [attribute_String ''method'' (streamFullMethod info),
                   attribute_Int ''status_code'' (uint code)] s1 of
             Inl p \<Rightarrow> Inl p
           | Inr s2 \<Rightarrow> Inr (s2, err)))"

section \<open>Runs of the setup operations\<close>

text \<open>
  A process calls the setup operations in some order, each call seeing the environment
  and the library outcomes of its moment.
\<close>

datatype op =
    OpInitCollector
  | OpNewTraceProvider "context" string
  | OpNewMeterProvider "context" string

fun step :: "state \<Rightarrow> world \<times> op \<Rightarrow> state" where
  "step s (w, OpInitCollector) = snd (initCollector w s)"
| "step s (w, OpNewTraceProvider ctx service) = snd (NewTraceProvider w ctx service s)"
| "step s (w, OpNewMeterProvider ctx service) = snd (NewMeterProvider w ctx service s)"

definition run :: "(world \<times> op) list \<Rightarrow> state" where
  "run ops = foldl step initial_state ops"



text \<open>Concrete surroundings for evaluation: an environment and library calls that succeed.\<close>

definition world_of :: "(string \<rightharpoonup> string) \<Rightarrow> world" where
  "world_of env =
     \<lparr>environ = env, unicodeToLower = (\<lambda>s. s),
      grpc_NewClient = (\<lambda>ep. Inr 1),
      otlptracegrpc_New = (\<lambda>c. None), otlpmetricgrpc_New = (\<lambda>c. None),
      resource_New = (\<lambda>attrs. Inr attrs),
      meter_Int64Counter = (\<lambda>n. None), meter_Float64Histogram = (\<lambda>n. None),
      provider_Shutdown = None\<rparr>"

definition env_lower :: "string \<rightharpoonup> string" where
  "env_lower =
     [''OTEL_ENABLE'' \<mapsto> ''true'', ''OTEL_COLLECTOR_ENDPOINT'' \<mapsto> ''localhost:4317'']"

definition env_upper :: "string \<rightharpoonup> string" where
  "env_upper =
     [''OTEL_ENABLE'' \<mapsto> ''TRUE'', ''OTEL_COLLECTOR_ENDPOINT'' \<mapsto> ''localhost:4317'']"

definition env_empty_endpoint :: "string \<rightharpoonup> string" where
  "env_empty_endpoint = [''OTEL_ENABLE'' \<mapsto> ''true'', ''OTEL_COLLECTOR_ENDPOINT'' \<mapsto> []]"

definition env_off :: "string \<rightharpoonup> string" where
  "env_off =
     [''OTEL_ENABLE'' \<mapsto> ''false'', ''OTEL_COLLECTOR_ENDPOINT'' \<mapsto> ''localhost:4317'']"

text \<open>The invariant of the memoized channel: it is the only channel ever opened.\<close>

definition channel_inv :: "state \<Rightarrow> bool" where
  "channel_inv s =
     (case grpcConnection s of None \<Rightarrow> opened s = [] | Some c \<Rightarrow> opened s = [c])"

text \<open>The status codes a handler's calls hand to \<open>WriteHeader\<close>, in order.\<close>

fun written_codes :: "rw_call list \<Rightarrow> int list" where
  "written_codes [] = []"
| "written_codes (WriteHeader c # xs) = c # written_codes xs"
| "written_codes (Write b # xs) = written_codes xs"

text \<open>Concrete inputs.\<close>

definition world_exporter_fails :: world where
  "world_exporter_fails =
     (world_of env_lower)\<lparr>otlptracegrpc_New := (\<lambda>c. Some (ErrorsNew ''exporter unavailable''))\<rparr>"

definition ops_three :: "(world \<times> op) list" where
  "ops_three =
     [(world_of env_lower, OpNewTraceProvider Background ''svc''),
      (world_of env_lower, OpNewMeterProvider Background ''svc''),
      (world_of env_lower, OpInitCollector)]"


definition http_requests_total :: Int64Counter where
  "http_requests_total =
     \<lparr>counterName = ''http_requests_total'',
      counterDescription = ''Total number of HTTP requests''\<rparr>"

definition http_request_duration_seconds :: Float64Histogram where
  "http_request_duration_seconds =
     \<lparr>histogramName = ''http_request_duration_seconds'',
      histogramDescription = ''HTTP request duration in seconds'',
      histogramBoundaries = [0.1, 0.2, 0.3, 0.4, 0.5, 0.6, 0.7, 0.8, 0.9, 1.0, 2.0, 5.0]\<rparr>"

definition state_ready :: state where
  "state_ready = snd (NewMeterProvider (world_of env_lower) Background ''svc'' initial_state)"


definition request_get :: request where
  "request_get = \<lparr>reqMethod = ''GET'', reqURLPath = ''/missing'', reqContext = Background\<rparr>"

definition handler_404_then_200 :: Handler where
  "handler_404_then_200 = (\<lambda>r. [WriteHeader 404, WriteHeader 200])"

definition handler_silent :: Handler where
  "handler_silent = (\<lambda>r. [Write ''ok''])"

definition codes_NotFound :: "32 word" where
  "codes_NotFound = 5"

section \<open>Evaluation lemmas\<close>

lemma char_of_true:
  "char_of (116::nat) = CHR ''t''" "char_of (114::nat) = CHR ''r''"
  "char_of (117::nat) = CHR ''u''" "char_of (101::nat) = CHR ''e''"
  by code_simp+

lemma ToLower_true: "strings_ToLower w ''true'' = ''true''"
  by (simp add: strings_ToLower_def ascii_lower_def)

lemma ToLower_TRUE: "strings_ToLower w ''TRUE'' = ''true''"
  by (simp add: strings_ToLower_def ascii_lower_def char_of_true)

lemma ToLower_false: "strings_ToLower w ''false'' \<noteq> ''true''"
  by (simp add: strings_ToLower_def ascii_lower_def)

lemma Getenv_world_of:
  "os_Getenv (world_of env) k = (case env k of None \<Rightarrow> [] | Some v \<Rightarrow> v)"
  by (simp add: os_Getenv_def os_LookupEnv_def world_of_def split: option.splits)

lemma initial_state_fields:
  "grpcConnection initial_state = None" "tracer initial_state = None"
  "dialled initial_state = []" "opened initial_state = []"
  "metrics initial_state = \<lparr>RequestCounter = None, RequestHistogram = None\<rparr>"
  by (simp_all add: initial_state_def)

lemma world_of_fields:
  "grpc_NewClient (world_of env) ep = Inr 1"
  "otlptracegrpc_New (world_of env) c = None"
  "otlpmetricgrpc_New (world_of env) c = None"
  "resource_New (world_of env) attrs = Inr attrs"
  "meter_Int64Counter (world_of env) n = None"
  "meter_Float64Histogram (world_of env) n = None"
  "environ (world_of env) = env"
  by (simp_all add: world_of_def)

section \<open>What the setup functions leave alone\<close>

lemma initCollector_other:
  "metrics (snd (initCollector w s)) = metrics s"
  "tracer (snd (initCollector w s)) = tracer s"
  by (simp_all add: initCollector_def Let_def split: option.splits sum.splits)

lemma initCollector_Inr:
  "fst (initCollector w s) = Inr c \<Longrightarrow> grpcConnection (snd (initCollector w s)) = Some c"
  by (auto simp add: initCollector_def Let_def split: option.splits sum.splits if_splits)

lemma initCollector_created:
  "instrumentsCreated (snd (initCollector w s)) = instrumentsCreated s"
  by (simp add: initCollector_def Let_def split: option.splits sum.splits)

lemma NewTraceProvider_channel:
  "grpcConnection (snd (NewTraceProvider w ctx service s)) = grpcConnection (snd (initCollector w s))"
  "opened (snd (NewTraceProvider w ctx service s)) = opened (snd (initCollector w s))"
  "dialled (snd (NewTraceProvider w ctx service s)) = dialled (snd (initCollector w s))"
  "metrics (snd (NewTraceProvider w ctx service s)) = metrics (snd (initCollector w s))"
  by (simp_all add: NewTraceProvider_def Let_def split: prod.splits sum.splits option.splits)

lemma NewMeterProvider_channel:
  "grpcConnection (snd (NewMeterProvider w ctx service s)) = grpcConnection (snd (initCollector w s))"
  "opened (snd (NewMeterProvider w ctx service s)) = opened (snd (initCollector w s))"
  "dialled (snd (NewMeterProvider w ctx service s)) = dialled (snd (initCollector w s))"
  "tracer (snd (NewMeterProvider w ctx service s)) = tracer (snd (initCollector w s))"
  by (simp_all add: NewMeterProvider_def Let_def split: prod.splits sum.splits option.splits)




section \<open>The channel invariant\<close>

lemma initCollector_inv: "channel_inv s \<Longrightarrow> channel_inv (snd (initCollector w s))"
  by (auto simp add: channel_inv_def initCollector_def Let_def split: option.splits sum.splits)

lemma step_inv: "channel_inv s \<Longrightarrow> channel_inv (step s x)"
proof (cases x)
  case (Pair w o1)
  assume inv: "channel_inv s"
  have "channel_inv (snd (initCollector w s))" using inv by (rule initCollector_inv)
  then show ?thesis using Pair
    by (cases o1)
      (simp_all add: channel_inv_def NewTraceProvider_channel NewMeterProvider_channel
         split: option.splits)
qed

lemma foldl_step_inv: "channel_inv s \<Longrightarrow> channel_inv (foldl step s ops)"
  by (induction ops arbitrary: s) (simp_all add: step_inv)

lemma run_inv: "channel_inv (run ops)"
  unfolding run_def by (rule foldl_step_inv) (simp add: channel_inv_def initial_state_def)

lemma run_ops_three:
  "grpcConnection (run ops_three) = Some 1"
  by (simp add: run_def ops_three_def NewTraceProvider_channel NewMeterProvider_channel
      initCollector_def Getenv_world_of env_lower_def ToLower_true initial_state_fields Let_def world_of_fields)

section \<open>Concrete runs\<close>

lemma state_ready_succeeds:
  "fst (NewMeterProvider (world_of env_lower) Background ''svc'' initial_state) \<noteq> NoopCleanup"
  by (simp add: NewMeterProvider_def newResource_def initCollector_def
      Getenv_world_of env_lower_def ToLower_true initial_state_fields Let_def world_of_fields)

lemma metrics_state_ready:
  "metrics state_ready =
     \<lparr>RequestCounter = Some http_requests_total,
      RequestHistogram = Some http_request_duration_seconds\<rparr>"
  "recorded state_ready = []"
  "length (instrumentsCreated state_ready) = 2"
  by (simp_all add: state_ready_def NewMeterProvider_def newResource_def initCollector_def
      Getenv_world_of env_lower_def ToLower_true initial_state_def Let_def world_of_fields
      http_requests_total_def http_request_duration_seconds_def requestBuckets_def)


section \<open>The status the response wrapper reports\<close>

lemma foldl_rw_apply_status:
  "statusCode (foldl rw_apply rw calls) = last (statusCode rw # written_codes calls)"
proof (induction calls arbitrary: rw)
  case Nil
  then show ?case by simp
next
  case (Cons x xs)
  then show ?case
    by (cases x) (simp_all add: responseWriter_WriteHeader_def responseWriter_Write_def Let_def)
qed

lemma Status_last_write:
  "Status (ServeHTTP h (NewResponseWriter w) r) = last (200 # written_codes (h r))"
  by (simp add: Status_def ServeHTTP_def foldl_rw_apply_status NewResponseWriter_def
      http_StatusOK_def)

lemma Status_default:
  "written_codes (h r) = [] \<Longrightarrow> Status (ServeHTTP h (NewResponseWriter w) r) = 200"
  by (simp add: Status_last_write)

lemma Status_handler_silent:
  "Status (ServeHTTP handler_silent (NewResponseWriter []) request_get) = 200"
  by (simp add: Status_default handler_silent_def)

section \<open>The Connection Manager\<close>

text \<open>
  C6. With no channel memoized and an enablement flag that permits connecting,
  \<open>initCollector\<close> fails with the missing-endpoint error exactly when
  \<open>OTEL_COLLECTOR_ENDPOINT\<close> is empty, and then touches nothing. Otherwise it hands the
  endpoint to \<open>grpc.NewClient\<close>: a failure comes back wrapped in the connection-failed
  error and memoizes nothing; a success is memoized and returned.
\<close>

theorem initCollector_acquire:
  assumes "grpcConnection s = None"
    and "strings_ToLower w (os_Getenv w ''OTEL_ENABLE'') = ''true''"
  shows "(fst (initCollector w s) = Inl (ErrorsNew ''OTEL_COLLECTOR_ENDPOINT not set'')
            \<longleftrightarrow> os_Getenv w ''OTEL_COLLECTOR_ENDPOINT'' = [])
       \<and> (os_Getenv w ''OTEL_COLLECTOR_ENDPOINT'' = [] \<longrightarrow> snd (initCollector w s) = s)
       \<and> (os_Getenv w ''OTEL_COLLECTOR_ENDPOINT'' \<noteq> [] \<longrightarrow>
            dialled (snd (initCollector w s))
              = dialled s @ [os_Getenv w ''OTEL_COLLECTOR_ENDPOINT'']
          \<and> (\<forall>cause. grpc_NewClient w (os_Getenv w ''OTEL_COLLECTOR_ENDPOINT'') = Inl cause \<longrightarrow>
                fst (initCollector w s) =
                  Inl (Errorf_w ''failed to create gRPC connection to collector: '' cause)
              \<and> grpcConnection (snd (initCollector w s)) = None
              \<and> opened (snd (initCollector w s)) = opened s)
          \<and> (\<forall>c. grpc_NewClient w (os_Getenv w ''OTEL_COLLECTOR_ENDPOINT'') = Inr c \<longrightarrow>
                fst (initCollector w s) = Inr c
              \<and> grpcConnection (snd (initCollector w s)) = Some c
              \<and> opened (snd (initCollector w s)) = opened s @ [c]))"
  using assms by (auto simp add: initCollector_def Let_def split: sum.splits)

theorem initCollector_acquire_witness:
  "grpcConnection initial_state = None
   \<and> strings_ToLower (world_of env_lower) (os_Getenv (world_of env_lower) ''OTEL_ENABLE'')
       = ''true''
   \<and> fst (initCollector (world_of env_lower) initial_state) = Inr 1
   \<and> grpcConnection (snd (initCollector (world_of env_lower) initial_state)) = Some 1
   \<and> dialled (snd (initCollector (world_of env_lower) initial_state)) = [''localhost:4317'']
   \<and> fst (initCollector (world_of env_empty_endpoint) initial_state)
       = Inl (ErrorsNew ''OTEL_COLLECTOR_ENDPOINT not set'')"
proof -
  have a: "grpcConnection initial_state = None"
    by (simp add: initial_state_fields)
  have b: "strings_ToLower (world_of env_lower)
             (os_Getenv (world_of env_lower) ''OTEL_ENABLE'') = ''true''"
    by (simp add: Getenv_world_of env_lower_def ToLower_true)
  have c: "strings_ToLower (world_of env_empty_endpoint)
             (os_Getenv (world_of env_empty_endpoint) ''OTEL_ENABLE'') = ''true''"
    by (simp add: Getenv_world_of env_empty_endpoint_def ToLower_true)
  have d: "os_Getenv (world_of env_lower) ''OTEL_COLLECTOR_ENDPOINT'' = ''localhost:4317''"
    by (simp add: Getenv_world_of env_lower_def)
  have e: "os_Getenv (world_of env_empty_endpoint) ''OTEL_COLLECTOR_ENDPOINT'' = []"
    by (simp add: Getenv_world_of env_empty_endpoint_def)
  have f: "grpc_NewClient (world_of env_lower) ''localhost:4317'' = Inr 1"
    by (simp add: world_of_def)
  have g: "dialled initial_state = []"
    by (simp add: initial_state_fields)
  show ?thesis
    using initCollector_acquire [OF a b] initCollector_acquire [OF a c] a b d e f g
    by simp
qed

text \<open>
  C5. \<open>initCollector\<close> is idempotent: in a state with a memoized channel it returns that
  very handle with no error and changes nothing (no call of \<open>grpc.NewClient\<close>). Hence
  after any sequence of setup calls, in whatever environments, at most one channel has
  ever been opened, and it is the memoized one.
\<close>

theorem initCollector_idempotent:
  "(grpcConnection s = Some c \<longrightarrow> initCollector w s = (Inr c, s))
   \<and> length (opened (run ops)) \<le> 1
   \<and> (grpcConnection (run ops) = Some c \<longrightarrow>
        opened (run ops) = [c] \<and> initCollector w (run ops) = (Inr c, run ops))"
  using run_inv [of ops]
  by (auto simp add: initCollector_def channel_inv_def split: option.splits)

theorem initCollector_idempotent_witness:
  "grpcConnection (run ops_three) = Some 1
   \<and> initCollector (world_of env_off) (run ops_three) = (Inr 1, run ops_three)
   \<and> opened (run ops_three) = [1]"
  using initCollector_idempotent [of "run ops_three" 1 "world_of env_off" ops_three] run_ops_three
  by simp

section \<open>Setup with telemetry switched off\<close>

text \<open>
  C1, as stated, fails: \<open>OTEL_ENABLE=TRUE\<close> is not the string \<open>true\<close>, yet
  \<open>initCollector\<close> lower-cases the flag before comparing, hands the endpoint to
  \<open>grpc.NewClient\<close> and returns the channel; \<open>NewTraceProvider\<close> then installs an SDK
  tracer, not the no-op one, and \<open>NewMeterProvider\<close> completes.
\<close>

theorem setup_enabled_for_uppercase_flag:
  "os_Getenv (world_of env_upper) ''OTEL_ENABLE'' \<noteq> ''true''
   \<and> grpcConnection initial_state = None
   \<and> dialled (snd (initCollector (world_of env_upper) initial_state)) = [''localhost:4317'']
   \<and> fst (initCollector (world_of env_upper) initial_state) = Inr 1
   \<and> tracer (snd (NewTraceProvider (world_of env_upper) Background ''svc'' initial_state))
        \<noteq> Some (NoopTracer ''noop'')
   \<and> fst (NewMeterProvider (world_of env_upper) Background ''svc'' initial_state) \<noteq> NoopCleanup"
  by (simp add: NewTraceProvider_def NewMeterProvider_def newResource_def initCollector_def
      Getenv_world_of env_upper_def ToLower_TRUE initial_state_fields Let_def world_of_fields)

text \<open>
  C1, amended: the gate is case-insensitive. With no channel memoized and a flag whose
  lower-cased form (\<open>strings.ToLower\<close>) is not \<open>true\<close>, \<open>initCollector\<close> returns the
  disabled error and leaves the state as it was, so \<open>grpc.NewClient\<close> is not called.
  \<open>NewTraceProvider\<close> then installs the no-op tracer and returns a nil handle with the
  no-op shutdown, and \<open>NewMeterProvider\<close> returns the no-op shutdown; neither hands an
  endpoint to \<open>grpc.NewClient\<close> nor memoizes a channel.
\<close>

theorem setup_disabled_noop:
  assumes "grpcConnection s = None"
    and "strings_ToLower w (os_Getenv w ''OTEL_ENABLE'') \<noteq> ''true''"
  shows "initCollector w s = (Inl (ErrorsNew ''tracing disabled via OTEL_ENABLE=false''), s)
       \<and> fst (NewTraceProvider w ctx service s) = (None, NoopCleanup)
       \<and> tracer (snd (NewTraceProvider w ctx service s)) = Some (NoopTracer ''noop'')
       \<and> dialled (snd (NewTraceProvider w ctx service s)) = dialled s
       \<and> opened (snd (NewTraceProvider w ctx service s)) = opened s
       \<and> grpcConnection (snd (NewTraceProvider w ctx service s)) = None
       \<and> fst (NewMeterProvider w ctx service s) = NoopCleanup
       \<and> dialled (snd (NewMeterProvider w ctx service s)) = dialled s
       \<and> opened (snd (NewMeterProvider w ctx service s)) = opened s
       \<and> grpcConnection (snd (NewMeterProvider w ctx service s)) = None"
  using assms
  by (simp add: NewTraceProvider_def NewMeterProvider_def initCollector_def Let_def)

theorem setup_disabled_noop_witness:
  "grpcConnection initial_state = None
   \<and> strings_ToLower (world_of env_off) (os_Getenv (world_of env_off) ''OTEL_ENABLE'') \<noteq> ''true''
   \<and> tracer (snd (NewTraceProvider (world_of env_off) Background ''svc'' initial_state))
       = Some (NoopTracer ''noop'')
   \<and> dialled (snd (NewTraceProvider (world_of env_off) Background ''svc'' initial_state)) = []
   \<and> fst (NewMeterProvider (world_of env_off) Background ''svc'' initial_state) = NoopCleanup"
proof -
  have a: "grpcConnection initial_state = None"
    by (simp add: initial_state_fields)
  have b: "strings_ToLower (world_of env_off) (os_Getenv (world_of env_off) ''OTEL_ENABLE'')
             \<noteq> ''true''"
    by (simp add: Getenv_world_of env_off_def ToLower_false)
  show ?thesis
    using setup_disabled_noop [OF a b, of Background "''svc''"] a b
    by (simp add: initial_state_fields)
qed

section \<open>Late failures of trace setup\<close>

text \<open>
  C3, as stated, fails: when the channel is acquired and the exporter cannot be built,
  \<open>NewTraceProvider\<close> returns the nil handle and the no-op shutdown but installs no
  tracer at all; the package-level \<open>tracer\<close> of a fresh process stays nil.
\<close>

theorem exporter_failure_leaves_tracer_unset:
  "fst (initCollector world_exporter_fails initial_state) = Inr 1
   \<and> otlptracegrpc_New world_exporter_fails 1 = Some (ErrorsNew ''exporter unavailable'')
   \<and> fst (NewTraceProvider world_exporter_fails Background ''svc'' initial_state)
       = (None, NoopCleanup)
   \<and> tracer (snd (NewTraceProvider world_exporter_fails Background ''svc'' initial_state)) = None
   \<and> tracer (snd (NewTraceProvider world_exporter_fails Background ''svc'' initial_state))
       \<noteq> Some (NoopTracer ''noop'')"
  by (simp add: NewTraceProvider_def initCollector_def world_exporter_fails_def
      os_Getenv_def os_LookupEnv_def world_of_fields env_lower_def ToLower_true
      initial_state_fields Let_def)

text \<open>
  C3, amended. When \<open>initCollector\<close> succeeds and the exporter or the resource cannot be
  built, \<open>NewTraceProvider\<close> returns a nil handle and a shutdown function that does
  nothing, as for a channel failure, but it leaves the package-level tracer and the
  registered provider as they were; the channel stays memoized. Only a channel failure
  installs the no-op tracer.
\<close>

theorem NewTraceProvider_late_failure:
  assumes "fst (initCollector w s) = Inr c"
    and "otlptracegrpc_New w c \<noteq> None \<or> (\<exists>e. newResource w service = Inl e)"
  shows "fst (NewTraceProvider w ctx service s) = (None, NoopCleanup)
       \<and> call_cleanup w' (snd (fst (NewTraceProvider w ctx service s))) s' = s'
       \<and> tracer (snd (NewTraceProvider w ctx service s)) = tracer s
       \<and> otelTracerProvider (snd (NewTraceProvider w ctx service s)) = otelTracerProvider s
       \<and> grpcConnection (snd (NewTraceProvider w ctx service s)) = Some c"
proof -
  obtain s1 where ic: "initCollector w s = (Inr c, s1)"
    using assms(1) by (cases "initCollector w s") simp
  have t: "tracer s1 = tracer s"
    using initCollector_other(2) [of w s] ic by simp
  have g: "grpcConnection s1 = Some c"
    using initCollector_Inr [OF assms(1)] ic by simp
  have p: "otelTracerProvider s1 = otelTracerProvider s"
    using ic by (auto simp add: initCollector_def Let_def split: option.splits sum.splits if_splits)
  from assms(2) show ?thesis
  proof
    assume "otlptracegrpc_New w c \<noteq> None"
    then obtain e where "otlptracegrpc_New w c = Some e" by auto
    then show ?thesis
      using ic t g p by (simp add: NewTraceProvider_def call_cleanup_def Let_def)
  next
    assume "\<exists>e. newResource w service = Inl e"
    then obtain e where "newResource w service = Inl e" by auto
    then show ?thesis
      using ic t g p
      by (simp add: NewTraceProvider_def call_cleanup_def Let_def split: option.splits)
  qed
qed

theorem NewTraceProvider_late_failure_witness:
  "fst (initCollector world_exporter_fails initial_state) = Inr 1
   \<and> otlptracegrpc_New world_exporter_fails 1 \<noteq> None
   \<and> fst (NewTraceProvider world_exporter_fails Background ''svc'' initial_state)
       = (None, NoopCleanup)
   \<and> tracer (snd (NewTraceProvider world_exporter_fails Background ''svc'' initial_state))
       = tracer initial_state"
proof -
  have a: "fst (initCollector world_exporter_fails initial_state) = Inr 1"
    by (simp add: initCollector_def world_exporter_fails_def
        os_Getenv_def os_LookupEnv_def world_of_fields env_lower_def ToLower_true
        initial_state_fields Let_def)
  have b: "otlptracegrpc_New world_exporter_fails 1 \<noteq> None"
    by (simp add: world_exporter_fails_def)
  have c: "otlptracegrpc_New world_exporter_fails 1 \<noteq> None
           \<or> (\<exists>e. newResource world_exporter_fails ''svc'' = Inl e)"
    using b by simp
  show ?thesis
    using NewTraceProvider_late_failure [OF a c, of Background] a b by simp
qed

section \<open>The span helper\<close>

text \<open>
  C7. Called while the package-level tracer is unset or no channel is memoized (so in
  particular before any trace setup), \<open>StartSpan\<close> returns the no-op span together with
  the context derived from the caller's by attaching that span; ending the span exports
  nothing over any channel.
\<close>

theorem StartSpan_before_setup:
  assumes "tracer s = None \<or> grpcConnection s = None"
  shows "StartSpan caller s ctx opts = (ContextWithSpan ctx NoopSpan, NoopSpan)
       \<and> exported_over (snd (StartSpan caller s ctx opts)) = []"
  using assms by (auto simp add: StartSpan_def tracer_Start_def Let_def)

theorem StartSpan_before_setup_witness:
  "(tracer initial_state = None \<or> grpcConnection initial_state = None)
   \<and> StartSpan (''main.handler'', 42) initial_state Background []
       = (ContextWithSpan Background NoopSpan, NoopSpan)"
proof -
  have a: "tracer initial_state = None \<or> grpcConnection initial_state = None"
    by (simp add: initial_state_fields)
  show ?thesis
    using StartSpan_before_setup [OF a, of "(''main.handler'', 42)" Background "[]"] a
    by simp
qed

section \<open>IsEnabled\<close>

text \<open>
  C10. \<open>IsEnabled\<close> is true exactly when \<open>OTEL_ENABLE\<close> is the string \<open>true\<close> and
  \<open>OTEL_COLLECTOR_ENDPOINT\<close> is present in the environment, be it empty. So it is true
  for \<open>OTEL_ENABLE=true\<close> with an empty endpoint, where \<open>initCollector\<close> fails with the
  missing-endpoint error, and false for \<open>OTEL_ENABLE=TRUE\<close>, where \<open>initCollector\<close>
  goes on to \<open>grpc.NewClient\<close> and returns the channel.
\<close>

theorem IsEnabled_iff:
  "IsEnabled w
     = (os_Getenv w ''OTEL_ENABLE'' = ''true'' \<and> ''OTEL_COLLECTOR_ENDPOINT'' \<in> dom (environ w))
   \<and> IsEnabled (world_of env_empty_endpoint)
   \<and> environ (world_of env_empty_endpoint) ''OTEL_COLLECTOR_ENDPOINT'' = Some []
   \<and> initCollector (world_of env_empty_endpoint) initial_state
       = (Inl (ErrorsNew ''OTEL_COLLECTOR_ENDPOINT not set''), initial_state)
   \<and> \<not> IsEnabled (world_of env_upper)
   \<and> dialled (snd (initCollector (world_of env_upper) initial_state)) = [''localhost:4317'']
   \<and> fst (initCollector (world_of env_upper) initial_state) = Inr 1"
proof -
  have 1: "IsEnabled w
     = (os_Getenv w ''OTEL_ENABLE'' = ''true'' \<and> ''OTEL_COLLECTOR_ENDPOINT'' \<in> dom (environ w))"
    by (auto simp add: IsEnabled_def os_LookupEnv_def Let_def split: option.splits)
  have 2: "IsEnabled (world_of env_empty_endpoint)"
    by (simp add: IsEnabled_def os_Getenv_def os_LookupEnv_def world_of_fields
        env_empty_endpoint_def)
  have 3: "environ (world_of env_empty_endpoint) ''OTEL_COLLECTOR_ENDPOINT'' = Some []"
    by (simp add: world_of_fields env_empty_endpoint_def)
  have 4: "initCollector (world_of env_empty_endpoint) initial_state
       = (Inl (ErrorsNew ''OTEL_COLLECTOR_ENDPOINT not set''), initial_state)"
    by (simp add: initCollector_def Getenv_world_of env_empty_endpoint_def ToLower_true
        initial_state_fields Let_def)
  have 5: "\<not> IsEnabled (world_of env_upper)"
    by (simp add: IsEnabled_def os_Getenv_def os_LookupEnv_def world_of_fields env_upper_def)
  have 6: "dialled (snd (initCollector (world_of env_upper) initial_state)) = [''localhost:4317'']
     \<and> fst (initCollector (world_of env_upper) initial_state) = Inr 1"
    by (simp add: initCollector_def Getenv_world_of env_upper_def ToLower_TRUE
        initial_state_fields Let_def world_of_fields)
  show ?thesis using 1 2 3 4 5 6 by blast
qed

section \<open>The instrument pair\<close>

text \<open>
  C9. A metric setup that completes (it returns the provider's shutdown, not the no-op
  one) has built exactly two instruments and stored them in \<open>metrics\<close>: the
  \<open>Int64Counter\<close> named \<open>http_requests_total\<close> and the \<open>Float64Histogram\<close> named
  \<open>http_request_duration_seconds\<close> with bucket boundaries 0.1, 0.2, ..., 0.9, 1.0, 2.0,
  5.0; neither field is nil afterwards.
\<close>

theorem NewMeterProvider_instruments:
  assumes "fst (NewMeterProvider w ctx service s) \<noteq> NoopCleanup"
  shows "metrics (snd (NewMeterProvider w ctx service s)) =
           \<lparr>RequestCounter =
              Some \<lparr>counterName = ''http_requests_total'',
                    counterDescription = ''Total number of HTTP requests''\<rparr>,
            RequestHistogram =
              Some \<lparr>histogramName = ''http_request_duration_seconds'',
                    histogramDescription = ''HTTP request duration in seconds'',
                    histogramBoundaries =
                      [0.1, 0.2, 0.3, 0.4, 0.5, 0.6, 0.7, 0.8, 0.9, 1.0, 2.0, 5.0]\<rparr>\<rparr>
       \<and> instrumentsCreated (snd (NewMeterProvider w ctx service s)) =
           instrumentsCreated s @
             [CreatedCounter \<lparr>counterName = ''http_requests_total'',
                              counterDescription = ''Total number of HTTP requests''\<rparr>,
              CreatedHistogram \<lparr>histogramName = ''http_request_duration_seconds'',
                    histogramDescription = ''HTTP request duration in seconds'',
                    histogramBoundaries =
                      [0.1, 0.2, 0.3, 0.4, 0.5, 0.6, 0.7, 0.8, 0.9, 1.0, 2.0, 5.0]\<rparr>]
       \<and> RequestCounter (metrics (snd (NewMeterProvider w ctx service s))) \<noteq> None
       \<and> RequestHistogram (metrics (snd (NewMeterProvider w ctx service s))) \<noteq> None"
proof -
  obtain r s1 where ic: "initCollector w s = (r, s1)"
    by (cases "initCollector w s")
  have cr: "instrumentsCreated s1 = instrumentsCreated s"
    using initCollector_created [of w s] ic by simp
  show ?thesis
    using assms ic cr
    by (simp add: NewMeterProvider_def requestBuckets_def Let_def
        split: sum.splits option.splits)
qed

theorem NewMeterProvider_instruments_witness:
  "fst (NewMeterProvider (world_of env_lower) Background ''svc'' initial_state) \<noteq> NoopCleanup
   \<and> metrics state_ready =
       \<lparr>RequestCounter = Some http_requests_total,
        RequestHistogram = Some http_request_duration_seconds\<rparr>
   \<and> instrumentsCreated state_ready =
       [CreatedCounter http_requests_total, CreatedHistogram http_request_duration_seconds]"
  using NewMeterProvider_instruments [OF state_ready_succeeds] state_ready_succeeds
  by (simp add: state_ready_def initial_state_def http_requests_total_def
      http_request_duration_seconds_def)



section \<open>What the wrappers record\<close>

text \<open>
  C8. With the instrument pair set, each invocation of the unary and of the streaming
  interceptor adds exactly 1 to the request counter and records the duration once, both
  with the attributes \<open>method\<close> (the full method name) and \<open>status_code\<close>, the integer
  value of \<open>status.Code\<close> of the error the handler returned; a nil error gives code 0
  (\<open>OK\<close>), a status error its own code. The handler's result is passed on.
\<close>

theorem interceptors_record_status:
  assumes "metrics s = \<lparr>RequestCounter = Some c, RequestHistogram = Some h\<rparr>"
  shows "UnaryServerMetricsInterceptor elapsed s ctx req info handler =
           Inr (s\<lparr>recorded := recorded s @
                    [CounterAdd c 1
                       [(''method'', StringValue (unaryFullMethod info)),
                        (''status_code'',
                           IntValue (uint (status_Code (snd (handler ctx req)))))],
                     HistogramRecord h elapsed
                       [(''method'', StringValue (unaryFullMethod info)),
                        (''status_code'',
                           IntValue (uint (status_Code (snd (handler ctx req)))))]]\<rparr>,
                handler ctx req)
       \<and> StreamServerMetricsInterceptor elapsed s srv ss sinfo shandler =
           Inr (s\<lparr>recorded := recorded s @
                    [CounterAdd c 1
                       [(''method'', StringValue (streamFullMethod sinfo)),
                        (''status_code'', IntValue (uint (status_Code (shandler srv ss))))],
                     HistogramRecord h elapsed
                       [(''method'', StringValue (streamFullMethod sinfo)),
                        (''status_code'', IntValue (uint (status_Code (shandler srv ss))))]]\<rparr>,
                shandler srv ss)
       \<and> uint (status_Code None) = 0
       \<and> status_Code (Some (StatusError code msg)) = code"
  using assms
  by (simp add: UnaryServerMetricsInterceptor_def StreamServerMetricsInterceptor_def
      Int64Counter_Add_def Float64Histogram_Record_def attribute_String_def attribute_Int_def
      Let_def split: prod.splits)

theorem interceptors_record_status_witness:
  "metrics state_ready =
     \<lparr>RequestCounter = Some http_requests_total,
      RequestHistogram = Some http_request_duration_seconds\<rparr>
   \<and> StreamServerMetricsInterceptor (1/4) state_ready () \<lparr>ssContext = Background\<rparr>
        \<lparr>streamFullMethod = ''/pkg.Svc/Watch''\<rparr>
        (\<lambda>srv ss. Some (StatusError codes_NotFound ''no such item''))
     = Inr (state_ready\<lparr>recorded :=
              [CounterAdd http_requests_total 1
                 [(''method'', StringValue ''/pkg.Svc/Watch''), (''status_code'', IntValue 5)],
               HistogramRecord http_request_duration_seconds (1/4)
                 [(''method'', StringValue ''/pkg.Svc/Watch''), (''status_code'', IntValue 5)]]\<rparr>,
            Some (StatusError codes_NotFound ''no such item''))"
  using interceptors_record_status [OF metrics_state_ready(1), of "1/4" Background "()"
      "\<lparr>unaryFullMethod = ''/pkg.Svc/Get''\<rparr>" "\<lambda>c q. ((), None)" "()"
      "\<lparr>ssContext = Background\<rparr>" "\<lparr>streamFullMethod = ''/pkg.Svc/Watch''\<rparr>"
      "\<lambda>srv ss. Some (StatusError codes_NotFound ''no such item'')"]
  by (simp add: metrics_state_ready codes_NotFound_def)

text \<open>
  C2. The claim is that the first status written wins. The code keeps the last: for a
  handler that writes 404 and then 200, the wrapper's \<open>Status\<close> is 200 and the middleware
  records \<open>status_code\<close> 200 on both instruments.
\<close>

theorem MetricsMiddleware_404_then_200:
  "Status (ServeHTTP handler_404_then_200 (NewResponseWriter []) request_get) = 200
   \<and> MetricsMiddleware handler_404_then_200 (1/4) state_ready [] request_get =
       Inr (state_ready\<lparr>recorded :=
              [CounterAdd http_requests_total 1
                 [(''method'', StringValue ''GET''), (''path'', StringValue ''/missing''),
                  (''status_code'', IntValue 200)],
               HistogramRecord http_request_duration_seconds (1/4)
                 [(''method'', StringValue ''GET''), (''path'', StringValue ''/missing''),
                  (''status_code'', IntValue 200)]]\<rparr>,
            [WriteHeader 404, WriteHeader 200])"
  by (simp add: MetricsMiddleware_def Status_def ServeHTTP_def NewResponseWriter_def
      responseWriter_WriteHeader_def handler_404_then_200_def request_get_def
      Int64Counter_Add_def Float64Histogram_Record_def attribute_String_def attribute_Int_def
      metrics_state_ready Let_def)

end
